theory Spec2Isabelle
  imports Main "HOL-Library.Word"
begin

section \<open>Package record: payload type registry and dispatch\<close>

text \<open>
  A shallow embedding of \<^verbatim>\<open>record/record.go\<close>. The package keeps one global,
  \<^verbatim>\<open>payloadTypeRegistry\<close>, a Go map from strings to \<^verbatim>\<open>reflect.Type\<close>, and
  allocates \<^verbatim>\<open>Record\<close> instances on the Go heap. Both are fields of an explicit
  \<open>world\<close> that every operation takes and returns. A Go panic is the \<open>Inl\<close> branch
  of the result.
\<close>

subsection \<open>Byte slices and strings\<close>

type_synonym byte = "8 word"

text \<open>A Go \<^verbatim>\<open>string\<close> is an immutable sequence of bytes, compared byte by byte.\<close>

type_synonym go_string = "byte list"

text \<open>
  A \<^verbatim>\<open>[]byte\<close> is either the nil slice or a slice with elements; the nil slice and
  the empty slice \<^verbatim>\<open>[]byte{}\<close> both have length zero and differ only in the
  comparison with \<^verbatim>\<open>nil\<close>.
\<close>

datatype go_bytes = NilBytes | Bytes "byte list"

fun elems :: "go_bytes \<Rightarrow> byte list" where
  "elems NilBytes = []"
| "elems (Bytes xs) = xs"

definition len :: "go_bytes \<Rightarrow> nat" where
  "len s = length (elems s)"

text \<open>\<^verbatim>\<open>make([]byte, n)\<close>: a non-nil slice of \<open>n\<close> zero bytes.\<close>

definition make_bytes :: "nat \<Rightarrow> go_bytes" where
  "make_bytes n = Bytes (replicate n 0)"

text \<open>
  \<^verbatim>\<open>copy(dst, src)\<close> overwrites the first \<open>min (len dst) (len src)\<close> elements of
  \<open>dst\<close>; the result is \<open>dst\<close> after the call.
\<close>

definition copy_bytes :: "go_bytes \<Rightarrow> go_bytes \<Rightarrow> go_bytes" where
  "copy_bytes dst src =
     (case dst of
        NilBytes \<Rightarrow> NilBytes
      | Bytes d \<Rightarrow>
          Bytes (take (min (length d) (len src)) (elems src)
                 @ drop (min (length d) (len src)) d))"

text \<open>The conversions \<^verbatim>\<open>string(b)\<close> and \<^verbatim>\<open>[]byte(s)\<close>; the latter is never nil.\<close>

definition string_of_bytes :: "go_bytes \<Rightarrow> go_string" where
  "string_of_bytes b = elems b"

definition bytes_of_string :: "go_string \<Rightarrow> go_bytes" where
  "bytes_of_string s = Bytes s"

subsection \<open>Errors and panics\<close>

datatype go_error = Error string

datatype panic =
    NilDereference
  | InterfaceConversion
  | MethodPanic string

subsection \<open>Types as seen through package reflect\<close>

text \<open>
  A \<^verbatim>\<open>reflect.Type\<close> is one of: the package's own \<^verbatim>\<open>DefaultRecord\<close>; another
  defined (named) type; an unnamed type literal that is not a pointer, such as a
  struct type, identified by its text; a pointer type \<^verbatim>\<open>*T\<close>. Interface types never
  reach the registry: the dynamic type of an interface value is not an interface, and
  a pointer to an interface has no methods, so it is not a \<^verbatim>\<open>Record\<close>.
\<close>

datatype go_type =
    DefaultRecordT
  | Defined string
  | Literal string
  | PtrTo go_type

datatype Kind = Ptr | OtherKind

text \<open>
  The program that links the package declares the other types. For every defined
  type it gives the underlying type; for every type the number of bytes of a value
  (\<^verbatim>\<open>Type.Size()\<close>) and the zero value of its state; and
  for every type that has the two \<^verbatim>\<open>Record\<close> methods (declared on it, or promoted
  from an embedded field) the body of \<^verbatim>\<open>UnmarshalRecord\<close>, with the kind of
  receiver that the method set needs. A body runs on the state of its receiver and
  the input and returns the new state and the error, or panics. The state \<open>'v\<close> of
  a value stands for everything the body reads and writes; a body does not touch
  \<^verbatim>\<open>payloadTypeRegistry\<close>, and it returns.
\<close>

type_synonym 'v unmarshal_body = "'v \<Rightarrow> go_bytes \<Rightarrow> panic + ('v \<times> go_error option)"

datatype 'v record_methods =
    ValueReceiver "'v unmarshal_body"
  | PointerReceiver "'v unmarshal_body"

fun body_of :: "'v record_methods \<Rightarrow> 'v unmarshal_body" where
  "body_of (ValueReceiver f) = f"
| "body_of (PointerReceiver f) = f"

record 'v program =
  underlying_of :: "string \<Rightarrow> go_type"
  size_of :: "go_type \<Rightarrow> nat"
  zero_value :: "go_type \<Rightarrow> 'v"
  record_methods_of :: "go_type \<Rightarrow> 'v record_methods option"

fun underlying :: "'v program \<Rightarrow> go_type \<Rightarrow> go_type" where
  "underlying P DefaultRecordT = Literal ''struct { Contents []uint8 }''"
| "underlying P (Defined n) = underlying_of P n"
| "underlying P (Literal s) = Literal s"
| "underlying P (PtrTo t) = PtrTo t"

text \<open>
  \<^verbatim>\<open>Type.Size()\<close>. A \<^verbatim>\<open>DefaultRecord\<close> is one slice header and a pointer is one
  word (24 and 8 bytes on a 64-bit platform, and not zero on any); the program gives
  the size of its own types, which is zero for a type such as \<^verbatim>\<open>struct{}\<close>.
\<close>

fun Size :: "'v program \<Rightarrow> go_type \<Rightarrow> nat" where
  "Size P DefaultRecordT = 24"
| "Size P (PtrTo t) = 8"
| "Size P t = size_of P t"

text \<open>\<^verbatim>\<open>Type.Kind()\<close>, as far as \<^verbatim>\<open>getValueType\<close> asks: is it \<^verbatim>\<open>reflect.Ptr\<close>?\<close>

definition kind :: "'v program \<Rightarrow> go_type \<Rightarrow> Kind" where
  "kind P t = (case underlying P t of PtrTo u \<Rightarrow> Ptr | _ \<Rightarrow> OtherKind)"

text \<open>\<^verbatim>\<open>Type.Elem()\<close> panics on a type that has no element type.\<close>

definition elem :: "'v program \<Rightarrow> go_type \<Rightarrow> panic + go_type" where
  "elem P t = (case underlying P t of PtrTo u \<Rightarrow> Inr u | _ \<Rightarrow> Inl (MethodPanic ''reflect: Elem of invalid type''))"

fun hasName :: "go_type \<Rightarrow> bool" where
  "hasName DefaultRecordT = True"
| "hasName (Defined n) = True"
| "hasName (Literal s) = False"
| "hasName (PtrTo t) = False"

text \<open>
  \<^verbatim>\<open>V.AssignableTo(T)\<close> for types that are not interfaces: identical types, or
  identical underlying types when at most one of the two is named.
\<close>

definition AssignableTo :: "'v program \<Rightarrow> go_type \<Rightarrow> go_type \<Rightarrow> bool" where
  "AssignableTo P V T =
     (if T = V then True
      else if (hasName T \<and> hasName V) \<or> kind P T \<noteq> kind P V then False
      else underlying P T = underlying P V)"

text \<open>
  The method set of a type contains the \<^verbatim>\<open>Record\<close> methods: a type whose kind is
  pointer declares no methods; \<^verbatim>\<open>*T\<close> has the methods declared with either
  receiver, \<^verbatim>\<open>T\<close> those with a value receiver. \<^verbatim>\<open>DefaultRecord\<close> declares both of
  its methods on the pointer.
\<close>

fun implements_Record :: "'v program \<Rightarrow> go_type \<Rightarrow> bool" where
  "implements_Record P (PtrTo t) =
     (kind P t \<noteq> Ptr \<and> (t = DefaultRecordT \<or> record_methods_of P t \<noteq> None))"
| "implements_Record P t =
     (kind P t \<noteq> Ptr \<and> t \<noteq> DefaultRecordT \<and>
      (case record_methods_of P t of Some (ValueReceiver f) \<Rightarrow> True | _ \<Rightarrow> False))"

subsection \<open>Values, heap and the global\<close>

record DefaultRecord =
  Contents :: go_bytes

datatype 'v object = DefaultRecordObj DefaultRecord | Obj 'v

text \<open>
  The heap is the list of the objects allocated so far, and the address of an object
  is its index in the list. The Go allocator gives no cell to a value of size zero:
  every allocation of zero bytes returns the address of the one runtime variable
  \<^verbatim>\<open>zerobase\<close>. A value of size zero has one state only, its zero value, so a
  read through \<^verbatim>\<open>zerobase\<close> yields the zero value and a write changes nothing.
\<close>

type_synonym 'v heap = "'v object list"

datatype address = zerobase | Cell nat

text \<open>
  A value of the interface type \<^verbatim>\<open>Record\<close>: nil, a pointer of dynamic type
  \<^verbatim>\<open>*T\<close> (itself nil or an address), or a value of a dynamic type \<^verbatim>\<open>T\<close>
  held by copy.
\<close>

datatype 'v Record = NilRecord | Pointer go_type "address option" | Value go_type 'v

record 'v world =
  payloadTypeRegistry :: "go_string \<rightharpoonup> go_type"
  heap :: "'v heap"

text \<open>\<^verbatim>\<open>var payloadTypeRegistry = make(map[string]reflect.Type)\<close>\<close>

definition init_registry :: "go_string \<rightharpoonup> go_type" where
  "init_registry = Map.empty"

text \<open>\<^verbatim>\<open>reflect.TypeOf(i)\<close> is nil for the nil interface.\<close>

fun TypeOf :: "'v Record \<Rightarrow> go_type option" where
  "TypeOf NilRecord = None"
| "TypeOf (Pointer t p) = Some (PtrTo t)"
| "TypeOf (Value t v) = Some t"

definition zero_object :: "'v program \<Rightarrow> go_type \<Rightarrow> 'v object" where
  "zero_object P t =
     (if t = DefaultRecordT then DefaultRecordObj \<lparr>Contents = NilBytes\<rparr>
      else Obj (zero_value P t))"

definition load :: "'v program \<Rightarrow> 'v heap \<Rightarrow> go_type \<Rightarrow> address \<Rightarrow> 'v object option" where
  "load P h t a =
     (case a of
        zerobase \<Rightarrow> Some (zero_object P t)
      | Cell i \<Rightarrow> (if i < length h then Some (h ! i) else None))"

definition store :: "'v heap \<Rightarrow> address \<Rightarrow> 'v object \<Rightarrow> 'v heap" where
  "store h a obj = (case a of zerobase \<Rightarrow> h | Cell i \<Rightarrow> h[i := obj])"

text \<open>The object a record points to, for a record that is a pointer and not nil.\<close>

definition deref :: "'v program \<Rightarrow> 'v heap \<Rightarrow> 'v Record \<Rightarrow> 'v object option" where
  "deref P h r = (case r of Pointer t (Some a) \<Rightarrow> load P h t a | _ \<Rightarrow> None)"

text \<open>
  \<^verbatim>\<open>reflect.New(t)\<close>, and \<^verbatim>\<open>&DefaultRecord{}\<close>: a pointer to a zero value of \<open>t\<close>.
  Both allocate through the runtime: zero bytes at \<^verbatim>\<open>zerobase\<close>, anything else
  in a new cell.
\<close>

definition reflect_New :: "'v program \<Rightarrow> 'v heap \<Rightarrow> go_type \<Rightarrow> 'v Record \<times> 'v heap" where
  "reflect_New P h t =
     (if Size P t = 0 then (Pointer t (Some zerobase), h)
      else (Pointer t (Some (Cell (length h))), h @ [zero_object P t]))"

subsection \<open>DefaultRecord\<close>

definition MarshalRecord :: "DefaultRecord \<Rightarrow> go_bytes \<times> go_error option" where
  "MarshalRecord r = (Contents r, None)"

definition UnmarshalRecord :: "DefaultRecord \<Rightarrow> go_bytes \<Rightarrow> DefaultRecord \<times> go_error option" where
  "UnmarshalRecord r data =
     (let r1 = r\<lparr>Contents := make_bytes (len data)\<rparr>;
          r2 = r1\<lparr>Contents := copy_bytes (Contents r1) data\<rparr>
      in (r2, None))"

text \<open>
  The call \<^verbatim>\<open>rec.UnmarshalRecord(data)\<close> through the interface: the dynamic type
  selects the method. A method reached through a nil pointer is taken to dereference
  its receiver, as that of \<^verbatim>\<open>DefaultRecord\<close> does; a method with a value receiver
  works on a copy of the value. Go is memory safe, so a pointer never leaves the heap
  nor points to a cell of another type; the model answers such a call with a panic.
\<close>

definition call_UnmarshalRecord ::
  "'v program \<Rightarrow> 'v heap \<Rightarrow> 'v Record \<Rightarrow> go_bytes \<Rightarrow> panic + (go_error option \<times> 'v heap)" where
  "call_UnmarshalRecord P h rec data =
     (case rec of
        NilRecord \<Rightarrow> Inl NilDereference
      | Value t v \<Rightarrow>
          (case record_methods_of P t of
             Some (ValueReceiver f) \<Rightarrow>
               (case f v data of Inl p \<Rightarrow> Inl p | Inr (v', e) \<Rightarrow> Inr (e, h))
           | _ \<Rightarrow> Inl InterfaceConversion)
      | Pointer t None \<Rightarrow> Inl NilDereference
      | Pointer t (Some a) \<Rightarrow>
          (case load P h t a of
             None \<Rightarrow> Inl NilDereference
           | Some obj \<Rightarrow>
               (if t = DefaultRecordT then
                  (case obj of
                     DefaultRecordObj r \<Rightarrow>
                       (case UnmarshalRecord r data of
                          (r', e) \<Rightarrow> Inr (e, store h a (DefaultRecordObj r')))
                   | Obj v \<Rightarrow> Inl InterfaceConversion)
                else
                  (case obj of
                     DefaultRecordObj r \<Rightarrow> Inl InterfaceConversion
                   | Obj v \<Rightarrow>
                       (case record_methods_of P t of
                          None \<Rightarrow> Inl InterfaceConversion
                        | Some (ValueReceiver f) \<Rightarrow>
                            (case f v data of Inl p \<Rightarrow> Inl p | Inr (v', e) \<Rightarrow> Inr (e, h))
                        | Some (PointerReceiver f) \<Rightarrow>
                            (case f v data of
                               Inl p \<Rightarrow> Inl p
                             | Inr (v', e) \<Rightarrow> Inr (e, store h a (Obj v'))))))))"

subsection \<open>The registry\<close>

definition getValueType :: "'v program \<Rightarrow> 'v Record \<Rightarrow> panic + go_type" where
  "getValueType P i =
     (case TypeOf i of
        None \<Rightarrow> Inl NilDereference
      | Some valueType \<Rightarrow>
          (if kind P valueType = Ptr then elem P valueType else Inr valueType))"

definition RegisterPayloadType ::
  "'v program \<Rightarrow> 'v world \<Rightarrow> go_bytes \<Rightarrow> 'v Record \<Rightarrow> panic + 'v world" where
  "RegisterPayloadType P w payloadType prototype =
     (case getValueType P prototype of
        Inl p \<Rightarrow> Inl p
      | Inr t \<Rightarrow>
          Inr (w\<lparr>payloadTypeRegistry :=
                   (payloadTypeRegistry w)(string_of_bytes payloadType \<mapsto> t)\<rparr>))"

definition blankRecordForPayloadType ::
  "'v program \<Rightarrow> 'v world \<Rightarrow> go_bytes \<Rightarrow> panic + (('v Record \<times> go_error option) \<times> 'v world)" where
  "blankRecordForPayloadType P w payloadType =
     (case payloadTypeRegistry w (string_of_bytes payloadType) of
        None \<Rightarrow>
          (case reflect_New P (heap w) DefaultRecordT of
             (r, h) \<Rightarrow> Inr ((r, None), w\<lparr>heap := h\<rparr>))
      | Some valueType \<Rightarrow>
          (case reflect_New P (heap w) valueType of
             (val, h) \<Rightarrow>
               (if implements_Record P (PtrTo valueType)
                then Inr ((val, None), w\<lparr>heap := h\<rparr>)
                else Inl InterfaceConversion)))"

definition unmarshalRecordPayload ::
  "'v program \<Rightarrow> 'v world \<Rightarrow> go_bytes \<Rightarrow> go_bytes \<Rightarrow>
     panic + (('v Record \<times> go_error option) \<times> 'v world)" where
  "unmarshalRecordPayload P w payloadType payloadBytes =
     (case blankRecordForPayloadType P w payloadType of
        Inl p \<Rightarrow> Inl p
      | Inr ((rec, err), w1) \<Rightarrow>
          (case err of
             Some e \<Rightarrow> Inr ((NilRecord, Some e), w1)
           | None \<Rightarrow>
               (case call_UnmarshalRecord P (heap w1) rec payloadBytes of
                  Inl p \<Rightarrow> Inl p
                | Inr (err', h2) \<Rightarrow>
                    (case err' of
                       Some e \<Rightarrow> Inr ((NilRecord, Some e), w1\<lparr>heap := h2\<rparr>)
                     | None \<Rightarrow> Inr ((rec, None), w1\<lparr>heap := h2\<rparr>)))))"

text \<open>
  \<^verbatim>\<open>for k, t := range payloadTypeRegistry\<close> visits every entry once, in an order
  that Go leaves open. The order of one run is the list \<open>ks\<close> of the keys.
\<close>

definition iteration_order :: "(go_string \<rightharpoonup> go_type) \<Rightarrow> go_string list \<Rightarrow> bool" where
  "iteration_order reg ks = (distinct ks \<and> set ks = dom reg)"

fun range_registry ::
  "'v program \<Rightarrow> (go_string \<rightharpoonup> go_type) \<Rightarrow> go_string list \<Rightarrow> go_type \<Rightarrow> go_bytes \<times> bool" where
  "range_registry P reg [] valueType = (Bytes [], False)"
| "range_registry P reg (k # ks) valueType =
     (case reg k of
        None \<Rightarrow> range_registry P reg ks valueType
      | Some t \<Rightarrow>
          (if AssignableTo P t valueType then (bytes_of_string k, True)
           else range_registry P reg ks valueType))"

definition payloadTypeForRecord ::
  "'v program \<Rightarrow> 'v world \<Rightarrow> go_string list \<Rightarrow> 'v Record \<Rightarrow>
     panic + ((go_bytes \<times> bool) \<times> 'v world)" where
  "payloadTypeForRecord P w ks rec =
     (case getValueType P rec of
        Inl p \<Rightarrow> Inl p
      | Inr valueType \<Rightarrow>
          Inr (range_registry P (payloadTypeRegistry w) ks valueType, w))"

text \<open>A sequence of registrations, as the \<^verbatim>\<open>init\<close> functions of a program make them.\<close>

fun register_all ::
  "'v program \<Rightarrow> 'v world \<Rightarrow> (go_bytes \<times> 'v Record) list \<Rightarrow> panic + 'v world" where
  "register_all P w [] = Inr w"
| "register_all P w ((payloadType, prototype) # rs) =
     (case RegisterPayloadType P w payloadType prototype of
        Inl p \<Rightarrow> Inl p
      | Inr w' \<Rightarrow> register_all P w' rs)"

text \<open>
  What a program does between two calls of \<^verbatim>\<open>blankRecordForPayloadType\<close> once its
  registrations are made: it calls the three dispatch functions, and it writes to the
  instances it holds, here a write of any object to a cell of the heap.
\<close>

datatype 'v action =
    Unmarshal go_bytes go_bytes
  | Blank go_bytes
  | TypeFor "go_string list" "'v Record"
  | Write nat "'v object"

fun step :: "'v program \<Rightarrow> 'v world \<Rightarrow> 'v action \<Rightarrow> panic + 'v world" where
  "step P w (Unmarshal payloadType payloadBytes) =
     (case unmarshalRecordPayload P w payloadType payloadBytes of
        Inl p \<Rightarrow> Inl p
      | Inr (r, w') \<Rightarrow> Inr w')"
| "step P w (Blank payloadType) =
     (case blankRecordForPayloadType P w payloadType of
        Inl p \<Rightarrow> Inl p
      | Inr (r, w') \<Rightarrow> Inr w')"
| "step P w (TypeFor ks rec) =
     (case payloadTypeForRecord P w ks rec of
        Inl p \<Rightarrow> Inl p
      | Inr (r, w') \<Rightarrow> Inr w')"
| "step P w (Write i obj) =
     (if i < length (heap w) then Inr (w\<lparr>heap := store (heap w) (Cell i) obj\<rparr>)
      else Inl NilDereference)"

fun run :: "'v program \<Rightarrow> 'v world \<Rightarrow> 'v action list \<Rightarrow> panic + 'v world" where
  "run P w [] = Inr w"
| "run P w (c # cs) =
     (case step P w c of
        Inl p \<Rightarrow> Inl p
      | Inr w' \<Rightarrow> run P w' cs)"

subsection \<open>A program with three record types\<close>

text \<open>
  The instance at which the theorems below are evaluated. \<^verbatim>\<open>Foo\<close> declares its
  methods on \<^verbatim>\<open>*Foo\<close>, \<^verbatim>\<open>Bar\<close> on \<^verbatim>\<open>Bar\<close>; the state of either is the list
  of bytes it holds. Their \<^verbatim>\<open>UnmarshalRecord\<close> rejects an empty input, after it
  has overwritten the receiver. \<^verbatim>\<open>Empty\<close> is \<^verbatim>\<open>struct{}\<close>, of size zero, with
  methods on \<^verbatim>\<open>*Empty\<close>; its \<^verbatim>\<open>UnmarshalRecord\<close> accepts the empty input only.
\<close>

definition empty_unmarshal :: "byte list unmarshal_body" where
  "empty_unmarshal v data =
     (if len data = 0 then Inr (v, None)
      else Inr (v, Some (Error ''unexpected payload'')))"

definition demo_unmarshal :: "byte list unmarshal_body" where
  "demo_unmarshal v data =
     (if len data = 0 then Inr ([255], Some (Error ''empty payload''))
      else Inr (elems data, None))"

definition demo_program :: "byte list program" where
  "demo_program =
     \<lparr>underlying_of =
        (\<lambda>n. if n = ''Empty'' then Literal ''struct {}''
             else Literal ''struct { X []uint8 }''),
      size_of = (\<lambda>t. if t = Defined ''Empty'' then 0 else 24),
      zero_value = (\<lambda>t. []),
      record_methods_of =
        (\<lambda>t. if t = Defined ''Foo'' then Some (PointerReceiver demo_unmarshal)
             else if t = Defined ''Bar'' then Some (ValueReceiver demo_unmarshal)
             else if t = Defined ''Empty'' then Some (PointerReceiver empty_unmarshal)
             else None)\<rparr>"

definition demo_world :: "byte list world" where
  "demo_world = \<lparr>payloadTypeRegistry = init_registry, heap = []\<rparr>"

section \<open>Properties\<close>

subsection \<open>Byte slices\<close>

lemma len_make_bytes: "len (make_bytes n) = n"
  by (simp add: len_def make_bytes_def)

lemma copy_into_made: "copy_bytes (make_bytes (len src)) src = Bytes (elems src)"
  by (simp add: copy_bytes_def make_bytes_def len_def)

lemma UnmarshalRecord_result:
  "UnmarshalRecord r data = (r\<lparr>Contents := Bytes (elems data)\<rparr>, None)"
  by (simp add: UnmarshalRecord_def Let_def copy_into_made)

text \<open>
  C1. For every byte sequence \<open>b\<close>, the nil and the empty slice included, and every
  state \<open>r\<close> of a \<^verbatim>\<open>DefaultRecord\<close>, \<^verbatim>\<open>UnmarshalRecord(b)\<close> returns no error,
  and \<^verbatim>\<open>MarshalRecord()\<close> on the record it leaves returns no error and a slice with
  exactly the bytes of \<open>b\<close>.
\<close>

theorem DefaultRecord_roundtrip:
  "snd (UnmarshalRecord r b) = None \<and>
   snd (MarshalRecord (fst (UnmarshalRecord r b))) = None \<and>
   elems (fst (MarshalRecord (fst (UnmarshalRecord r b)))) = elems b \<and>
   len (fst (MarshalRecord (fst (UnmarshalRecord r b)))) = len b"
  by (simp add: UnmarshalRecord_result MarshalRecord_def len_def)

subsection \<open>Reflection and the registry\<close>

lemma getValueType_Pointer: "getValueType P (Pointer t p) = Inr t"
  by (simp add: getValueType_def kind_def elem_def)



lemma AssignableTo_refl: "AssignableTo P t t"
  by (simp add: AssignableTo_def)

lemma AssignableTo_sym: "AssignableTo P V T = AssignableTo P T V"
  by (auto simp: AssignableTo_def)

lemma Register_Pointer:
  "RegisterPayloadType P w T (Pointer t p) =
     Inr (w\<lparr>payloadTypeRegistry := (payloadTypeRegistry w)(string_of_bytes T \<mapsto> t)\<rparr>)"
  by (simp add: RegisterPayloadType_def getValueType_Pointer)

lemma Register_result:
  "RegisterPayloadType P w T proto = Inr w' \<Longrightarrow>
   \<exists>t. getValueType P proto = Inr t \<and>
       w' = w\<lparr>payloadTypeRegistry := (payloadTypeRegistry w)(string_of_bytes T \<mapsto> t)\<rparr>"
  by (auto simp: RegisterPayloadType_def split: sum.splits)

lemma reflect_New_DefaultRecord:
  "reflect_New P h DefaultRecordT =
     (Pointer DefaultRecordT (Some (Cell (length h))), h @ [DefaultRecordObj \<lparr>Contents = NilBytes\<rparr>])"
  by (simp add: reflect_New_def zero_object_def)

lemma blank_unregistered:
  "payloadTypeRegistry w (string_of_bytes T) = None \<Longrightarrow>
   blankRecordForPayloadType P w T =
     Inr ((Pointer DefaultRecordT (Some (Cell (length (heap w)))), None),
          w\<lparr>heap := heap w @ [DefaultRecordObj \<lparr>Contents = NilBytes\<rparr>]\<rparr>)"
  by (simp add: blankRecordForPayloadType_def reflect_New_DefaultRecord)

lemma blank_registered:
  "payloadTypeRegistry w (string_of_bytes T) = Some t \<Longrightarrow> implements_Record P (PtrTo t) \<Longrightarrow>
   blankRecordForPayloadType P w T =
     (if Size P t = 0 then Inr ((Pointer t (Some zerobase), None), w)
      else Inr ((Pointer t (Some (Cell (length (heap w)))), None),
                w\<lparr>heap := heap w @ [zero_object P t]\<rparr>))"
  by (simp add: blankRecordForPayloadType_def reflect_New_def)

lemma blank_registry:
  "blankRecordForPayloadType P w T = Inr (r, w') \<Longrightarrow> payloadTypeRegistry w' = payloadTypeRegistry w"
  by (auto simp: blankRecordForPayloadType_def reflect_New_def split: option.splits if_splits)

lemma blank_heap:
  "blankRecordForPayloadType P w T = Inr (r, w') \<Longrightarrow> length (heap w) \<le> length (heap w')"
  by (auto simp: blankRecordForPayloadType_def reflect_New_def split: option.splits if_splits)

lemma store_length: "length (store h a obj) = length h"
  by (simp add: store_def split: address.splits)

lemma call_UnmarshalRecord_length:
  "call_UnmarshalRecord P h r d = Inr (e, h') \<Longrightarrow> length h' = length h"
  by (auto simp: call_UnmarshalRecord_def store_length
      split: Record.splits option.splits record_methods.splits sum.splits if_splits object.splits prod.splits)

lemma unmarshal_registry:
  "unmarshalRecordPayload P w T b = Inr (r, w') \<Longrightarrow> payloadTypeRegistry w' = payloadTypeRegistry w"
  by (auto simp: unmarshalRecordPayload_def split: sum.splits option.splits prod.splits dest: blank_registry)

lemma unmarshal_heap:
  "unmarshalRecordPayload P w T b = Inr (r, w') \<Longrightarrow> length (heap w) \<le> length (heap w')"
  by (auto simp: unmarshalRecordPayload_def split: sum.splits option.splits prod.splits
      dest!: blank_heap call_UnmarshalRecord_length)

lemma step_keeps:
  "step P w c = Inr w' \<Longrightarrow>
   payloadTypeRegistry w' = payloadTypeRegistry w \<and> length (heap w) \<le> length (heap w')"
proof (cases c)
  case (Unmarshal T b)
  assume "step P w c = Inr w'"
  with Unmarshal obtain r where "unmarshalRecordPayload P w T b = Inr (r, w')"
    by (auto split: sum.splits)
  then show ?thesis by (simp add: unmarshal_registry unmarshal_heap)
next
  case (Blank T)
  assume "step P w c = Inr w'"
  with Blank obtain r where "blankRecordForPayloadType P w T = Inr (r, w')"
    by (auto split: sum.splits)
  then show ?thesis by (simp add: blank_registry blank_heap)
next
  case (TypeFor ks rec)
  assume "step P w c = Inr w'"
  with TypeFor show ?thesis
    by (auto simp: payloadTypeForRecord_def split: sum.splits)
next
  case (Write i obj)
  assume "step P w c = Inr w'"
  with Write show ?thesis
    by (auto simp: store_length split: if_splits)
qed

lemma run_keeps:
  "run P w cs = Inr w' \<Longrightarrow>
   payloadTypeRegistry w' = payloadTypeRegistry w \<and> length (heap w) \<le> length (heap w')"
proof (induction cs arbitrary: w)
  case Nil
  then show ?case by simp
next
  case (Cons c cs)
  then obtain w1 where s: "step P w c = Inr w1" and r: "run P w1 cs = Inr w'"
    by (auto split: sum.splits)
  from step_keeps [OF s] Cons.IH [OF r] show ?case by simp
qed

lemma register_all_dom:
  "register_all P w rs = Inr w' \<Longrightarrow>
   dom (payloadTypeRegistry w') = dom (payloadTypeRegistry w) \<union> set (map (string_of_bytes \<circ> fst) rs) \<and> heap w' = heap w"
proof (induction rs arbitrary: w)
  case Nil
  then show ?case by simp
next
  case (Cons r rs)
  obtain T proto where r: "r = (T, proto)" by (cases r)
  from Cons.prems r obtain w1 where
    w1: "RegisterPayloadType P w T proto = Inr w1" and rest: "register_all P w1 rs = Inr w'"
    by (auto split: sum.splits)
  from Register_result [OF w1] have
    "dom (payloadTypeRegistry w1) = insert (string_of_bytes T) (dom (payloadTypeRegistry w))" and "heap w1 = heap w"
    by auto
  with Cons.IH [OF rest] r show ?case by auto
qed

lemma call_Unmarshal_fresh_default:
  "call_UnmarshalRecord P (h @ [DefaultRecordObj r]) (Pointer DefaultRecordT (Some (Cell (length h)))) b =
     Inr (None, h @ [DefaultRecordObj (r\<lparr>Contents := Bytes (elems b)\<rparr>)])"
  by (simp add: call_UnmarshalRecord_def load_def store_def UnmarshalRecord_result)

lemma unmarshal_unregistered:
  "payloadTypeRegistry w (string_of_bytes T) = None \<Longrightarrow>
   unmarshalRecordPayload P w T b =
     Inr ((Pointer DefaultRecordT (Some (Cell (length (heap w)))), None),
          w\<lparr>heap := heap w @ [DefaultRecordObj \<lparr>Contents = Bytes (elems b)\<rparr>]\<rparr>)"
  by (simp add: unmarshalRecordPayload_def blank_unregistered call_Unmarshal_fresh_default)

lemma call_Unmarshal_fresh_obj:
  "t \<noteq> DefaultRecordT \<Longrightarrow> record_methods_of P t = Some m \<Longrightarrow> body_of m v x = Inr (v', e) \<Longrightarrow>
   \<exists>h'. call_UnmarshalRecord P (h @ [Obj v]) (Pointer t (Some (Cell (length h)))) x = Inr (e, h')"
  by (cases m) (simp_all add: call_UnmarshalRecord_def load_def)

lemma call_Unmarshal_zerobase:
  "t \<noteq> DefaultRecordT \<Longrightarrow> record_methods_of P t = Some m \<Longrightarrow>
   body_of m (zero_value P t) x = Inr (v', e) \<Longrightarrow>
   call_UnmarshalRecord P h (Pointer t (Some zerobase)) x = Inr (e, h)"
  by (cases m) (simp_all add: call_UnmarshalRecord_def load_def store_def zero_object_def)

lemma range_registry_none:
  "\<forall>k t. reg k = Some t \<longrightarrow> \<not> AssignableTo P t vt \<Longrightarrow>
   range_registry P reg ks vt = (Bytes [], False)"
  by (induction ks) (auto split: option.splits)

lemma range_registry_only:
  assumes "reg k0 = Some t0" and "AssignableTo P t0 vt"
    and "\<forall>k t. k \<noteq> k0 \<and> reg k = Some t \<longrightarrow> \<not> AssignableTo P t vt"
    and "k0 \<in> set ks"
  shows "range_registry P reg ks vt = (Bytes k0, True)"
  using assms(4)
proof (induction ks)
  case Nil
  then show ?case by simp
next
  case (Cons k ks)
  show ?case
  proof (cases "k = k0")
    case True
    with assms(1,2) show ?thesis by (simp add: bytes_of_string_def)
  next
    case False
    with Cons have IH: "range_registry P reg ks vt = (Bytes k0, True)" by simp
    from False assms(3) have "\<And>t. reg k = Some t \<Longrightarrow> \<not> AssignableTo P t vt" by blast
    with IH show ?thesis by (simp split: option.splits)
  qed
qed

lemma range_registry_not_found:
  "range_registry P reg ks vt = (tag, False) \<Longrightarrow> tag = Bytes []"
  by (induction ks) (auto split: option.splits if_splits)

lemma demo_not_assignable:
  "\<not> AssignableTo demo_program (Defined ''Bar'') (Defined ''Foo'')"
  "\<not> AssignableTo demo_program (Defined ''Bar'') (Defined ''Baz'')"
  "\<not> AssignableTo demo_program (Defined ''Foo'') (Defined ''Baz'')"
  by (simp_all add: AssignableTo_def)

subsection \<open>The dispatch operations\<close>

subsection \<open>The dispatch operations\<close>

text \<open>
  C2. Start from the empty registry and make any sequence of registrations. For a
  tag whose bytes are those of no tag passed to \<^verbatim>\<open>RegisterPayloadType\<close>, and for
  every input \<open>b\<close>, \<^verbatim>\<open>unmarshalRecordPayload(tag, b)\<close> does not panic and returns a
  nil error and a pointer to a new \<^verbatim>\<open>DefaultRecord\<close> whose \<^verbatim>\<open>Contents\<close> hold the
  bytes of \<open>b\<close>. There is no "type not found" error.
\<close>

theorem unregistered_tag_falls_back:
  assumes "payloadTypeRegistry w0 = init_registry"
    and "register_all P w0 regs = Inr w"
    and "string_of_bytes tag \<notin> set (map (string_of_bytes \<circ> fst) regs)"
  shows "unmarshalRecordPayload P w tag b =
           Inr ((Pointer DefaultRecordT (Some (Cell (length (heap w)))), None),
                w\<lparr>heap := heap w @ [DefaultRecordObj \<lparr>Contents = Bytes (elems b)\<rparr>]\<rparr>)"
proof -
  from register_all_dom [OF assms(2)] assms(1,3)
  have "string_of_bytes tag \<notin> dom (payloadTypeRegistry w)"
    by (simp add: init_registry_def)
  then have "payloadTypeRegistry w (string_of_bytes tag) = None"
    by (simp add: domIff)
  then show ?thesis by (rule unmarshal_unregistered)
qed

theorem unregistered_tag_falls_back_witness:
  "unmarshalRecordPayload demo_program
     (demo_world\<lparr>payloadTypeRegistry := [[1, 2] \<mapsto> Defined ''Foo'']\<rparr>) (Bytes [1]) (Bytes [7, 8]) =
   Inr ((Pointer DefaultRecordT (Some (Cell 0)), None),
        \<lparr>payloadTypeRegistry = [[1, 2] \<mapsto> Defined ''Foo''],
         heap = [DefaultRecordObj \<lparr>Contents = Bytes [7, 8]\<rparr>]\<rparr>)"
  using unregistered_tag_falls_back [of demo_world demo_program "[(Bytes [1, 2], Pointer (Defined ''Foo'') None)]"
               "demo_world\<lparr>payloadTypeRegistry := [[1, 2] \<mapsto> Defined ''Foo'']\<rparr>" "Bytes [1]" "Bytes [7, 8]"]
  by (simp add: demo_world_def init_registry_def Register_Pointer string_of_bytes_def)

text \<open>
  C3, as stated, fails for a type of size zero. With \<^verbatim>\<open>Empty\<close> registered, two
  calls of \<^verbatim>\<open>blankRecordForPayloadType\<close> return the same pointer, the address of
  \<^verbatim>\<open>zerobase\<close>, although the call made between them for an unregistered tag got
  a new cell.
\<close>

theorem zero_size_instances_coincide:
  "RegisterPayloadType demo_program demo_world (Bytes [9]) (Pointer (Defined ''Empty'') (Some zerobase)) =
     Inr \<lparr>payloadTypeRegistry = [[9] \<mapsto> Defined ''Empty''], heap = []\<rparr> \<and>
   blankRecordForPayloadType demo_program
       \<lparr>payloadTypeRegistry = [[9] \<mapsto> Defined ''Empty''], heap = []\<rparr> (Bytes [9]) =
     Inr ((Pointer (Defined ''Empty'') (Some zerobase), None),
          \<lparr>payloadTypeRegistry = [[9] \<mapsto> Defined ''Empty''], heap = []\<rparr>) \<and>
   blankRecordForPayloadType demo_program
       \<lparr>payloadTypeRegistry = [[9] \<mapsto> Defined ''Empty''], heap = []\<rparr> (Bytes [1]) =
     Inr ((Pointer DefaultRecordT (Some (Cell 0)), None),
          \<lparr>payloadTypeRegistry = [[9] \<mapsto> Defined ''Empty''],
           heap = [DefaultRecordObj \<lparr>Contents = NilBytes\<rparr>]\<rparr>) \<and>
   blankRecordForPayloadType demo_program
       \<lparr>payloadTypeRegistry = [[9] \<mapsto> Defined ''Empty''],
        heap = [DefaultRecordObj \<lparr>Contents = NilBytes\<rparr>]\<rparr> (Bytes [9]) =
     Inr ((Pointer (Defined ''Empty'') (Some zerobase), None),
          \<lparr>payloadTypeRegistry = [[9] \<mapsto> Defined ''Empty''],
           heap = [DefaultRecordObj \<lparr>Contents = NilBytes\<rparr>]\<rparr>)"
  by (simp add: RegisterPayloadType_def getValueType_def kind_def elem_def demo_world_def
      init_registry_def string_of_bytes_def blankRecordForPayloadType_def reflect_New_def
      zero_object_def demo_program_def)

text \<open>
  C3, amended. Let \<open>T\<close> be registered with the prototype \<^verbatim>\<open>&Foo{}\<close>, a
  \<^verbatim>\<open>Record\<close>. Every call of \<^verbatim>\<open>blankRecordForPayloadType(T)\<close>, the first one
  and one made after any dispatch calls and any writes to instances, returns a nil
  error and a pointer of type \<^verbatim>\<open>*Foo\<close> to a zero value of \<^verbatim>\<open>Foo\<close>. If
  \<^verbatim>\<open>Foo\<close> has a size other than zero, the pointer is to a cell that did not exist
  before the call, the two calls return different pointers, and the later call leaves
  the first instance in the state the program gave it. If \<^verbatim>\<open>Foo\<close> has size zero,
  both calls return the same pointer and change nothing; the value has no state.
\<close>

theorem registered_tag_zero_instance:
  assumes "implements_Record P (PtrTo Foo)"
    and "RegisterPayloadType P w0 T (Pointer Foo p) = Inr w1"
  shows "\<exists>r1 w1'.
           blankRecordForPayloadType P w1 T = Inr ((r1, None), w1') \<and>
           TypeOf r1 = Some (PtrTo Foo) \<and>
           deref P (heap w1') r1 = Some (zero_object P Foo) \<and>
           (Size P Foo \<noteq> 0 \<longrightarrow> deref P (heap w1) r1 = None) \<and>
           (\<forall>cs w2. run P w1' cs = Inr w2 \<longrightarrow>
              (\<exists>r2 w2'.
                 blankRecordForPayloadType P w2 T = Inr ((r2, None), w2') \<and>
                 TypeOf r2 = Some (PtrTo Foo) \<and>
                 deref P (heap w2') r2 = Some (zero_object P Foo) \<and>
                 (Size P Foo \<noteq> 0 \<longrightarrow>
                    r2 \<noteq> r1 \<and> deref P (heap w2) r2 = None \<and>
                    deref P (heap w2) r1 \<noteq> None \<and>
                    deref P (heap w2') r1 = deref P (heap w2) r1) \<and>
                 (Size P Foo = 0 \<longrightarrow> r2 = r1 \<and> w2' = w2)))"
proof -
  from assms(2) have reg: "payloadTypeRegistry w1 (string_of_bytes T) = Some Foo"
    by (auto simp: Register_Pointer)
  show ?thesis
  proof (cases "Size P Foo = 0")
    case True
    have first: "blankRecordForPayloadType P w1 T = Inr ((Pointer Foo (Some zerobase), None), w1)"
      using blank_registered [OF reg assms(1)] True by simp
    have later: "blankRecordForPayloadType P w2 T = Inr ((Pointer Foo (Some zerobase), None), w2)"
      if "run P w1 cs = Inr w2" for cs w2
    proof -
      from run_keeps [OF that] reg
      have "payloadTypeRegistry w2 (string_of_bytes T) = Some Foo" by simp
      from blank_registered [OF this assms(1)] True show ?thesis by simp
    qed
    show ?thesis
      apply (rule exI [of _ "Pointer Foo (Some zerobase)"], rule exI [of _ w1])
      using first later True by (simp add: deref_def load_def)
  next
    case False
    let ?r1 = "Pointer Foo (Some (Cell (length (heap w1)))) :: 'a Record"
    let ?w1' = "w1\<lparr>heap := heap w1 @ [zero_object P Foo]\<rparr>"
    have first: "blankRecordForPayloadType P w1 T = Inr ((?r1, None), ?w1')"
      using blank_registered [OF reg assms(1)] False by simp
    have later: "\<exists>r2 w2'.
           blankRecordForPayloadType P w2 T = Inr ((r2, None), w2') \<and>
           TypeOf r2 = Some (PtrTo Foo) \<and>
           deref P (heap w2') r2 = Some (zero_object P Foo) \<and>
           r2 \<noteq> ?r1 \<and> deref P (heap w2) r2 = None \<and>
           deref P (heap w2) ?r1 \<noteq> None \<and>
           deref P (heap w2') ?r1 = deref P (heap w2) ?r1"
      if "run P ?w1' cs = Inr w2" for cs w2
    proof -
      from run_keeps [OF that] reg
      have r: "payloadTypeRegistry w2 (string_of_bytes T) = Some Foo"
        and l: "length (heap w1) < length (heap w2)" by simp_all
      from blank_registered [OF r assms(1)] False
      have "blankRecordForPayloadType P w2 T =
              Inr ((Pointer Foo (Some (Cell (length (heap w2)))), None),
                   w2\<lparr>heap := heap w2 @ [zero_object P Foo]\<rparr>)"
        by simp
      with l show ?thesis
        by (simp add: deref_def load_def nth_append)
    qed
    show ?thesis
      apply (rule exI [of _ ?r1], rule exI [of _ ?w1'])
      using first later False by (simp add: deref_def load_def)
  qed
qed

theorem registered_tag_zero_instance_witness:
  "blankRecordForPayloadType demo_program
     \<lparr>payloadTypeRegistry = [[1, 2] \<mapsto> Defined ''Foo''], heap = []\<rparr> (Bytes [1, 2]) =
     Inr ((Pointer (Defined ''Foo'') (Some (Cell 0)), None),
          \<lparr>payloadTypeRegistry = [[1, 2] \<mapsto> Defined ''Foo''], heap = [Obj []]\<rparr>) \<and>
   run demo_program
     \<lparr>payloadTypeRegistry = [[1, 2] \<mapsto> Defined ''Foo''], heap = [Obj []]\<rparr> [Write 0 (Obj [9])] =
     Inr \<lparr>payloadTypeRegistry = [[1, 2] \<mapsto> Defined ''Foo''], heap = [Obj [9]]\<rparr> \<and>
   blankRecordForPayloadType demo_program
     \<lparr>payloadTypeRegistry = [[1, 2] \<mapsto> Defined ''Foo''], heap = [Obj [9]]\<rparr> (Bytes [1, 2]) =
     Inr ((Pointer (Defined ''Foo'') (Some (Cell 1)), None),
          \<lparr>payloadTypeRegistry = [[1, 2] \<mapsto> Defined ''Foo''], heap = [Obj [9], Obj []]\<rparr>) \<and>
   deref demo_program [Obj [9], Obj []] (Pointer (Defined ''Foo'') (Some (Cell 1))) =
     Some (zero_object demo_program (Defined ''Foo'')) \<and>
   deref demo_program [Obj [9], Obj []] (Pointer (Defined ''Foo'') (Some (Cell 0))) = Some (Obj [9])"
proof -
  let ?reg = "[[1, 2] \<mapsto> Defined ''Foo''] :: go_string \<rightharpoonup> go_type"
  let ?w1 = "\<lparr>payloadTypeRegistry = ?reg, heap = []\<rparr> :: byte list world"
  let ?w1' = "\<lparr>payloadTypeRegistry = ?reg, heap = [Obj []]\<rparr> :: byte list world"
  let ?w2 = "\<lparr>payloadTypeRegistry = ?reg, heap = [Obj [9]]\<rparr> :: byte list world"
  let ?w2' = "\<lparr>payloadTypeRegistry = ?reg, heap = [Obj [9], Obj []]\<rparr> :: byte list world"
  have impl: "implements_Record demo_program (PtrTo (Defined ''Foo''))"
    by (simp add: demo_program_def kind_def)
  have size: "Size demo_program (Defined ''Foo'') \<noteq> 0"
    by (simp add: demo_program_def)
  have reg: "RegisterPayloadType demo_program demo_world (Bytes [1, 2]) (Pointer (Defined ''Foo'') None) = Inr ?w1"
    by (simp add: RegisterPayloadType_def getValueType_def kind_def elem_def demo_world_def
        init_registry_def string_of_bytes_def)
  from registered_tag_zero_instance [OF impl reg] size obtain r1 w1' where
    first: "blankRecordForPayloadType demo_program ?w1 (Bytes [1, 2]) = Inr ((r1, None), w1')"
    and later: "\<And>cs w2. run demo_program w1' cs = Inr w2 \<Longrightarrow>
              (\<exists>r2 w2'.
                 blankRecordForPayloadType demo_program w2 (Bytes [1, 2]) = Inr ((r2, None), w2') \<and>
                 TypeOf r2 = Some (PtrTo (Defined ''Foo'')) \<and>
                 deref demo_program (heap w2') r2 = Some (zero_object demo_program (Defined ''Foo'')) \<and>
                 r2 \<noteq> r1 \<and>
                 deref demo_program (heap w2') r1 = deref demo_program (heap w2) r1)"
    by blast
  have eval1: "blankRecordForPayloadType demo_program ?w1 (Bytes [1, 2]) =
      Inr ((Pointer (Defined ''Foo'') (Some (Cell 0)), None), ?w1')"
    by (simp add: blankRecordForPayloadType_def reflect_New_def zero_object_def
        string_of_bytes_def demo_program_def kind_def)
  with first have r1: "r1 = Pointer (Defined ''Foo'') (Some (Cell 0))" and w1': "w1' = ?w1'"
    by simp_all
  have between: "run demo_program ?w1' [Write 0 (Obj [9])] = Inr ?w2"
    by (simp add: store_def)
  from later [of "[Write 0 (Obj [9])]" ?w2] between w1' obtain r2 w2' where
    second: "blankRecordForPayloadType demo_program ?w2 (Bytes [1, 2]) = Inr ((r2, None), w2')"
    and zero: "deref demo_program (heap w2') r2 = Some (zero_object demo_program (Defined ''Foo''))"
    and kept: "deref demo_program (heap w2') r1 = deref demo_program (heap ?w2) r1"
    by auto
  have eval2: "blankRecordForPayloadType demo_program ?w2 (Bytes [1, 2]) =
      Inr ((Pointer (Defined ''Foo'') (Some (Cell 1)), None), ?w2')"
    by (simp add: blankRecordForPayloadType_def reflect_New_def zero_object_def
        string_of_bytes_def demo_program_def kind_def)
  with second have "r2 = Pointer (Defined ''Foo'') (Some (Cell 1))" and "w2' = ?w2'"
    by simp_all
  with zero kept r1 have
    "deref demo_program [Obj [9], Obj []] (Pointer (Defined ''Foo'') (Some (Cell 1))) =
       Some (zero_object demo_program (Defined ''Foo''))"
    "deref demo_program [Obj [9], Obj []] (Pointer (Defined ''Foo'') (Some (Cell 0))) = Some (Obj [9])"
    by (simp_all add: deref_def load_def)
  with eval1 between eval2 show ?thesis by simp
qed

text \<open>
  C4. Let \<open>T\<close> be registered with a type \<open>Foo\<close> other than \<^verbatim>\<open>DefaultRecord\<close>. If
  the \<^verbatim>\<open>UnmarshalRecord\<close> of \<open>Foo\<close>, run on a new zero value and the input \<open>x\<close>,
  returns the error \<open>e\<close>, then \<^verbatim>\<open>unmarshalRecordPayload(T, x)\<close> returns the nil
  record and that same error \<open>e\<close>.
\<close>

theorem unmarshal_error_propagates:
  assumes "payloadTypeRegistry w (string_of_bytes T) = Some Foo"
    and "implements_Record P (PtrTo Foo)"
    and "Foo \<noteq> DefaultRecordT"
    and "record_methods_of P Foo = Some m"
    and "body_of m (zero_value P Foo) x = Inr (v', Some e)"
  shows "\<exists>w'. unmarshalRecordPayload P w T x = Inr ((NilRecord, Some e), w')"
proof (cases "Size P Foo = 0")
  case True
  from blank_registered [OF assms(1,2)] True
  have "blankRecordForPayloadType P w T = Inr ((Pointer Foo (Some zerobase), None), w)"
    by simp
  with call_Unmarshal_zerobase [OF assms(3,4,5), of "heap w"] show ?thesis
    by (simp add: unmarshalRecordPayload_def)
next
  case False
  from blank_registered [OF assms(1,2)] False
  have blank: "blankRecordForPayloadType P w T =
      Inr ((Pointer Foo (Some (Cell (length (heap w)))), None), w\<lparr>heap := heap w @ [zero_object P Foo]\<rparr>)"
    by simp
  from assms(3) have zero: "zero_object P Foo = Obj (zero_value P Foo)"
    by (simp add: zero_object_def)
  from call_Unmarshal_fresh_obj [OF assms(3,4,5)] obtain h' where
    "call_UnmarshalRecord P (heap w @ [Obj (zero_value P Foo)]) (Pointer Foo (Some (Cell (length (heap w))))) x =
       Inr (Some e, h')"
    by blast
  with blank zero show ?thesis
    by (simp add: unmarshalRecordPayload_def)
qed

theorem unmarshal_error_propagates_witness:
  "unmarshalRecordPayload demo_program
     \<lparr>payloadTypeRegistry = [[1, 2] \<mapsto> Defined ''Foo''], heap = []\<rparr> (Bytes [1, 2]) (Bytes []) =
   Inr ((NilRecord, Some (Error ''empty payload'')),
        \<lparr>payloadTypeRegistry = [[1, 2] \<mapsto> Defined ''Foo''], heap = [Obj [255]]\<rparr>)"
  using unmarshal_error_propagates [of "\<lparr>payloadTypeRegistry = [[1, 2] \<mapsto> Defined ''Foo''], heap = []\<rparr>" "Bytes [1, 2]"
      "Defined ''Foo''" demo_program "PointerReceiver demo_unmarshal" "Bytes []" "[255]" "Error ''empty payload''"]
  by (simp add: demo_program_def kind_def demo_unmarshal_def len_def string_of_bytes_def
      unmarshalRecordPayload_def blankRecordForPayloadType_def reflect_New_def zero_object_def
      call_UnmarshalRecord_def load_def store_def)

text \<open>
  C5. After \<^verbatim>\<open>RegisterPayloadType(T, &Foo{})\<close> and then
  \<^verbatim>\<open>RegisterPayloadType(T, &Bar{})\<close>, in every later world \<open>w3\<close> with the registry
  these two calls left, \<^verbatim>\<open>blankRecordForPayloadType(T)\<close> returns a pointer of type
  \<^verbatim>\<open>*Bar\<close> to a zero value of \<^verbatim>\<open>Bar\<close>: in a new cell, or at
  \<^verbatim>\<open>zerobase\<close> when \<^verbatim>\<open>Bar\<close> has size zero.
\<close>

theorem reregistration_replaces:
  assumes "implements_Record P (PtrTo Bar)"
    and "RegisterPayloadType P w0 T (Pointer Foo p) = Inr w1"
    and "RegisterPayloadType P w1 T (Pointer Bar q) = Inr w2"
    and "payloadTypeRegistry w3 = payloadTypeRegistry w2"
  shows "blankRecordForPayloadType P w3 T =
           (if Size P Bar = 0 then Inr ((Pointer Bar (Some zerobase), None), w3)
            else Inr ((Pointer Bar (Some (Cell (length (heap w3)))), None),
                      w3\<lparr>heap := heap w3 @ [zero_object P Bar]\<rparr>))"
proof -
  from assms(3) have "payloadTypeRegistry w2 (string_of_bytes T) = Some Bar"
    by (auto simp: Register_Pointer)
  with assms(4) have "payloadTypeRegistry w3 (string_of_bytes T) = Some Bar"
    by simp
  then show ?thesis using assms(1) by (rule blank_registered)
qed

theorem reregistration_replaces_witness:
  "blankRecordForPayloadType demo_program
     \<lparr>payloadTypeRegistry = [[1, 2] \<mapsto> Defined ''Bar''], heap = [Obj [9]]\<rparr> (Bytes [1, 2]) =
   Inr ((Pointer (Defined ''Bar'') (Some (Cell 1)), None),
        \<lparr>payloadTypeRegistry = [[1, 2] \<mapsto> Defined ''Bar''], heap = [Obj [9], Obj []]\<rparr>)"
  using reregistration_replaces [of demo_program "Defined ''Bar''" demo_world "Bytes [1, 2]" "Defined ''Foo''" None
      "\<lparr>payloadTypeRegistry = [[1, 2] \<mapsto> Defined ''Foo''], heap = []\<rparr>" None
      "\<lparr>payloadTypeRegistry = [[1, 2] \<mapsto> Defined ''Bar''], heap = []\<rparr>"
      "\<lparr>payloadTypeRegistry = [[1, 2] \<mapsto> Defined ''Bar''], heap = [Obj [9]]\<rparr>"]
  by (simp add: Register_Pointer demo_world_def init_registry_def string_of_bytes_def
      demo_program_def kind_def zero_object_def)

text \<open>
  C6. Types are compared after \<^verbatim>\<open>getValueType\<close> has removed one pointer
  indirection. First part: after \<^verbatim>\<open>RegisterPayloadType(T, &Foo{})\<close>, if no entry
  under another key has a type assignable to \<open>Foo\<close>, then for every order in which
  the map may be iterated \<^verbatim>\<open>payloadTypeForRecord(&Foo{})\<close> returns the bytes of
  \<open>T\<close> and \<open>true\<close>. Second part: for a non-nil instance to whose type no registered
  type is assignable, it returns \<open>found = false\<close>. Neither call changes the world.
\<close>

theorem reverse_lookup_consistent:
  "(RegisterPayloadType P w0 T (Pointer Foo p) = Inr w \<and>
    (\<forall>k t. k \<noteq> string_of_bytes T \<and> payloadTypeRegistry w k = Some t \<longrightarrow> \<not> AssignableTo P t Foo) \<and>
    iteration_order (payloadTypeRegistry w) ks
    \<longrightarrow> payloadTypeForRecord P w ks (Pointer Foo q) = Inr ((Bytes (elems T), True), w))
   \<and>
   (getValueType P rec = Inr vt \<and>
    (\<forall>k t. payloadTypeRegistry w k = Some t \<longrightarrow> \<not> AssignableTo P t vt)
    \<longrightarrow> payloadTypeForRecord P w ks rec = Inr ((Bytes [], False), w))"
proof (intro conjI impI)
  assume a: "RegisterPayloadType P w0 T (Pointer Foo p) = Inr w \<and>
    (\<forall>k t. k \<noteq> string_of_bytes T \<and> payloadTypeRegistry w k = Some t \<longrightarrow> \<not> AssignableTo P t Foo) \<and>
    iteration_order (payloadTypeRegistry w) ks"
  then have reg: "payloadTypeRegistry w (string_of_bytes T) = Some Foo"
    by (auto simp: Register_Pointer)
  with a have "string_of_bytes T \<in> set ks"
    by (auto simp: iteration_order_def)
  with reg a have "range_registry P (payloadTypeRegistry w) ks Foo = (Bytes (string_of_bytes T), True)"
    by (intro range_registry_only [where ?t0.0 = Foo]) (simp_all add: AssignableTo_refl)
  then show "payloadTypeForRecord P w ks (Pointer Foo q) = Inr ((Bytes (elems T), True), w)"
    by (simp add: payloadTypeForRecord_def getValueType_Pointer string_of_bytes_def)
next
  assume "getValueType P rec = Inr vt \<and>
    (\<forall>k t. payloadTypeRegistry w k = Some t \<longrightarrow> \<not> AssignableTo P t vt)"
  then show "payloadTypeForRecord P w ks rec = Inr ((Bytes [], False), w)"
    by (simp add: payloadTypeForRecord_def range_registry_none)
qed

theorem reverse_lookup_consistent_witness:
  "payloadTypeForRecord demo_program
     \<lparr>payloadTypeRegistry = [[3] \<mapsto> Defined ''Bar'', [1, 2] \<mapsto> Defined ''Foo''], heap = []\<rparr>
     [[3], [1, 2]] (Pointer (Defined ''Foo'') None) =
     Inr ((Bytes [1, 2], True),
          \<lparr>payloadTypeRegistry = [[3] \<mapsto> Defined ''Bar'', [1, 2] \<mapsto> Defined ''Foo''], heap = []\<rparr>) \<and>
   payloadTypeForRecord demo_program
     \<lparr>payloadTypeRegistry = [[3] \<mapsto> Defined ''Bar'', [1, 2] \<mapsto> Defined ''Foo''], heap = []\<rparr>
     [[3], [1, 2]] (Pointer (Defined ''Baz'') None) =
     Inr ((Bytes [], False),
          \<lparr>payloadTypeRegistry = [[3] \<mapsto> Defined ''Bar'', [1, 2] \<mapsto> Defined ''Foo''], heap = []\<rparr>)"
proof -
  let ?w0 = "\<lparr>payloadTypeRegistry = [[3] \<mapsto> Defined ''Bar''], heap = []\<rparr> :: byte list world"
  let ?w = "\<lparr>payloadTypeRegistry = [[3] \<mapsto> Defined ''Bar'', [1, 2] \<mapsto> Defined ''Foo''], heap = []\<rparr>
              :: byte list world"
  have reg: "RegisterPayloadType demo_program ?w0 (Bytes [1, 2]) (Pointer (Defined ''Foo'') None) = Inr ?w"
    by (simp add: RegisterPayloadType_def getValueType_def kind_def elem_def string_of_bytes_def)
  have others: "\<forall>k t. k \<noteq> string_of_bytes (Bytes [1, 2]) \<and> payloadTypeRegistry ?w k = Some t \<longrightarrow>
                  \<not> AssignableTo demo_program t (Defined ''Foo'')"
    by (simp add: string_of_bytes_def demo_not_assignable)
  have order: "iteration_order (payloadTypeRegistry ?w) [[3], [1, 2]]"
    by (auto simp: iteration_order_def)
  have gv: "getValueType demo_program (Pointer (Defined ''Baz'') None) = Inr (Defined ''Baz'')"
    by (simp add: getValueType_def kind_def elem_def)
  have none: "\<forall>k t. payloadTypeRegistry ?w k = Some t \<longrightarrow> \<not> AssignableTo demo_program t (Defined ''Baz'')"
    by (simp add: demo_not_assignable)
  from reverse_lookup_consistent [of demo_program ?w0 "Bytes [1, 2]" "Defined ''Foo''" None ?w "[[3], [1, 2]]" None
              "Pointer (Defined ''Baz'') None" "Defined ''Baz''"]
    reg others order gv none
  show ?thesis by simp
qed

text \<open>
  C7. Whenever \<^verbatim>\<open>unmarshalRecordPayload\<close>, \<^verbatim>\<open>blankRecordForPayloadType\<close> or
  \<^verbatim>\<open>payloadTypeForRecord\<close> returns, the registry is the one the call started with
  (the first two extend the heap, the third changes nothing at all).
  \<^verbatim>\<open>RegisterPayloadType\<close> is the operation that writes the registry: it sets the
  entry of its tag to the value type of the prototype, keeps every other entry and
  leaves the heap alone. A panic ends the run; the package never recovers from one.
\<close>

theorem dispatch_keeps_registry:
  "(\<forall>r w'. unmarshalRecordPayload P w T b = Inr (r, w') \<longrightarrow>
            payloadTypeRegistry w' = payloadTypeRegistry w) \<and>
   (\<forall>r w'. blankRecordForPayloadType P w T = Inr (r, w') \<longrightarrow>
            payloadTypeRegistry w' = payloadTypeRegistry w) \<and>
   (\<forall>r w'. payloadTypeForRecord P w ks rec = Inr (r, w') \<longrightarrow> w' = w) \<and>
   (\<forall>w'. RegisterPayloadType P w T prototype = Inr w' \<longrightarrow>
          (\<exists>t. getValueType P prototype = Inr t \<and>
               w' = w\<lparr>payloadTypeRegistry :=
                        (payloadTypeRegistry w)(string_of_bytes T \<mapsto> t)\<rparr>))"
proof (intro conjI allI impI)
  fix r w'
  assume "unmarshalRecordPayload P w T b = Inr (r, w')"
  then show "payloadTypeRegistry w' = payloadTypeRegistry w" by (rule unmarshal_registry)
next
  fix r w'
  assume "blankRecordForPayloadType P w T = Inr (r, w')"
  then show "payloadTypeRegistry w' = payloadTypeRegistry w" by (rule blank_registry)
next
  fix r w'
  assume "payloadTypeForRecord P w ks rec = Inr (r, w')"
  then show "w' = w"
    by (auto simp: payloadTypeForRecord_def split: sum.splits)
next
  fix w'
  assume "RegisterPayloadType P w T prototype = Inr w'"
  then show "\<exists>t. getValueType P prototype = Inr t \<and>
               w' = w\<lparr>payloadTypeRegistry :=
                        (payloadTypeRegistry w)(string_of_bytes T \<mapsto> t)\<rparr>"
    by (rule Register_result)
qed

theorem dispatch_keeps_registry_witness:
  "unmarshalRecordPayload demo_program
       \<lparr>payloadTypeRegistry = [[1, 2] \<mapsto> Defined ''Foo''], heap = []\<rparr> (Bytes [1, 2]) (Bytes [5]) =
     Inr ((Pointer (Defined ''Foo'') (Some (Cell 0)), None),
          \<lparr>payloadTypeRegistry = [[1, 2] \<mapsto> Defined ''Foo''], heap = [Obj [5]]\<rparr>) \<and>
   blankRecordForPayloadType demo_program
       \<lparr>payloadTypeRegistry = [[1, 2] \<mapsto> Defined ''Foo''], heap = []\<rparr> (Bytes [1, 2]) =
     Inr ((Pointer (Defined ''Foo'') (Some (Cell 0)), None),
          \<lparr>payloadTypeRegistry = [[1, 2] \<mapsto> Defined ''Foo''], heap = [Obj []]\<rparr>) \<and>
   payloadTypeForRecord demo_program
       \<lparr>payloadTypeRegistry = [[1, 2] \<mapsto> Defined ''Foo''], heap = []\<rparr> [[1, 2]]
       (Pointer (Defined ''Foo'') None) =
     Inr ((Bytes [1, 2], True),
          \<lparr>payloadTypeRegistry = [[1, 2] \<mapsto> Defined ''Foo''], heap = []\<rparr>) \<and>
   RegisterPayloadType demo_program
       \<lparr>payloadTypeRegistry = [[1, 2] \<mapsto> Defined ''Foo''], heap = []\<rparr> (Bytes [1, 2])
       (Value (Defined ''Bar'') [4]) =
     Inr \<lparr>payloadTypeRegistry = [[1, 2] \<mapsto> Defined ''Bar''], heap = []\<rparr>"
proof -
  let ?reg = "[[1, 2] \<mapsto> Defined ''Foo''] :: go_string \<rightharpoonup> go_type"
  let ?w = "\<lparr>payloadTypeRegistry = ?reg, heap = []\<rparr> :: byte list world"
  have u: "unmarshalRecordPayload demo_program ?w (Bytes [1, 2]) (Bytes [5]) =
     Inr ((Pointer (Defined ''Foo'') (Some (Cell 0)), None),
          \<lparr>payloadTypeRegistry = ?reg, heap = [Obj [5]]\<rparr>)"
    by (simp add: unmarshalRecordPayload_def blankRecordForPayloadType_def reflect_New_def
        zero_object_def call_UnmarshalRecord_def load_def store_def string_of_bytes_def
        demo_program_def kind_def demo_unmarshal_def len_def)
  have b: "blankRecordForPayloadType demo_program ?w (Bytes [1, 2]) =
     Inr ((Pointer (Defined ''Foo'') (Some (Cell 0)), None),
          \<lparr>payloadTypeRegistry = ?reg, heap = [Obj []]\<rparr>)"
    by (simp add: blankRecordForPayloadType_def reflect_New_def
        zero_object_def string_of_bytes_def demo_program_def kind_def)
  have p: "payloadTypeForRecord demo_program ?w [[1, 2]] (Pointer (Defined ''Foo'') None) =
     Inr ((Bytes [1, 2], True), ?w)"
    by (simp add: payloadTypeForRecord_def getValueType_def kind_def elem_def AssignableTo_def
        bytes_of_string_def)
  have r: "RegisterPayloadType demo_program ?w (Bytes [1, 2]) (Value (Defined ''Bar'') [4]) =
     Inr \<lparr>payloadTypeRegistry = [[1, 2] \<mapsto> Defined ''Bar''], heap = []\<rparr>"
    by (simp add: RegisterPayloadType_def getValueType_def kind_def demo_program_def
        string_of_bytes_def)
  from dispatch_keeps_registry [of demo_program ?w "Bytes [1, 2]" "Bytes [5]" "[[1, 2]]"
      "Pointer (Defined ''Foo'') None" "Value (Defined ''Bar'') [4]"] u b p r
  show ?thesis by simp
qed

text \<open>
  C8. Register \<^verbatim>\<open>&Foo{}\<close> under \<open>t1\<close> and resolve \<open>t2\<close>. If the two tags have the
  same bytes the result is a \<^verbatim>\<open>*Foo\<close> to a zero value (in a new cell, or at
  \<^verbatim>\<open>zerobase\<close> when \<^verbatim>\<open>Foo\<close> has size zero). If they differ in any byte, or in length,
  and \<open>t2\<close> had no entry of its own, the result is a new \<^verbatim>\<open>*DefaultRecord\<close>.
\<close>

theorem tag_identity_bytewise:
  assumes "implements_Record P (PtrTo Foo)"
    and "RegisterPayloadType P w t1 (Pointer Foo p) = Inr w1"
  shows "(elems t1 = elems t2 \<longrightarrow>
            blankRecordForPayloadType P w1 t2 =
              (if Size P Foo = 0 then Inr ((Pointer Foo (Some zerobase), None), w1)
               else Inr ((Pointer Foo (Some (Cell (length (heap w1)))), None),
                         w1\<lparr>heap := heap w1 @ [zero_object P Foo]\<rparr>))) \<and>
         (elems t1 \<noteq> elems t2 \<and> payloadTypeRegistry w (string_of_bytes t2) = None \<longrightarrow>
            blankRecordForPayloadType P w1 t2 =
              Inr ((Pointer DefaultRecordT (Some (Cell (length (heap w1)))), None),
                   w1\<lparr>heap := heap w1 @ [DefaultRecordObj \<lparr>Contents = NilBytes\<rparr>]\<rparr>))"
proof (intro conjI impI)
  assume "elems t1 = elems t2"
  with assms(2) have "payloadTypeRegistry w1 (string_of_bytes t2) = Some Foo"
    by (auto simp: Register_Pointer string_of_bytes_def)
  then show "blankRecordForPayloadType P w1 t2 =
              (if Size P Foo = 0 then Inr ((Pointer Foo (Some zerobase), None), w1)
               else Inr ((Pointer Foo (Some (Cell (length (heap w1)))), None),
                         w1\<lparr>heap := heap w1 @ [zero_object P Foo]\<rparr>))"
    using assms(1) by (rule blank_registered)
next
  assume "elems t1 \<noteq> elems t2 \<and> payloadTypeRegistry w (string_of_bytes t2) = None"
  with assms(2) have "payloadTypeRegistry w1 (string_of_bytes t2) = None"
    by (auto simp: Register_Pointer string_of_bytes_def)
  then show "blankRecordForPayloadType P w1 t2 =
              Inr ((Pointer DefaultRecordT (Some (Cell (length (heap w1)))), None),
                   w1\<lparr>heap := heap w1 @ [DefaultRecordObj \<lparr>Contents = NilBytes\<rparr>]\<rparr>)"
    by (rule blank_unregistered)
qed

theorem tag_identity_bytewise_witness:
  "blankRecordForPayloadType demo_program
       \<lparr>payloadTypeRegistry = [[1, 2] \<mapsto> Defined ''Foo''], heap = []\<rparr> (Bytes [1, 2]) =
     Inr ((Pointer (Defined ''Foo'') (Some (Cell 0)), None),
          \<lparr>payloadTypeRegistry = [[1, 2] \<mapsto> Defined ''Foo''], heap = [Obj []]\<rparr>) \<and>
   blankRecordForPayloadType demo_program
       \<lparr>payloadTypeRegistry = [[1, 2] \<mapsto> Defined ''Foo''], heap = []\<rparr> (Bytes [1, 3]) =
     Inr ((Pointer DefaultRecordT (Some (Cell 0)), None),
          \<lparr>payloadTypeRegistry = [[1, 2] \<mapsto> Defined ''Foo''],
           heap = [DefaultRecordObj \<lparr>Contents = NilBytes\<rparr>]\<rparr>)"
proof -
  let ?w = "\<lparr>payloadTypeRegistry = [[1, 2] \<mapsto> Defined ''Foo''], heap = []\<rparr> :: byte list world"
  have impl: "implements_Record demo_program (PtrTo (Defined ''Foo''))"
    by (simp add: demo_program_def kind_def)
  have reg: "RegisterPayloadType demo_program demo_world (Bytes [1, 2]) (Pointer (Defined ''Foo'') None) = Inr ?w"
    by (simp add: RegisterPayloadType_def getValueType_def kind_def elem_def demo_world_def
        init_registry_def string_of_bytes_def)
  have fresh: "payloadTypeRegistry demo_world (string_of_bytes (Bytes [1, 3])) = None"
    by (simp add: demo_world_def init_registry_def)
  from tag_identity_bytewise [OF impl reg, of "Bytes [1, 2]"] tag_identity_bytewise [OF impl reg, of "Bytes [1, 3]"] fresh
  show ?thesis by (simp add: zero_object_def demo_program_def)
qed

text \<open>
  C9. Whenever \<^verbatim>\<open>payloadTypeForRecord\<close> returns \<open>found = false\<close>, the tag returned
  with it is \<^verbatim>\<open>[]byte{}\<close>: of length zero, and not nil.
\<close>

theorem not_found_tag_is_empty:
  assumes "payloadTypeForRecord P w ks rec = Inr ((tag, False), w')"
  shows "tag = Bytes [] \<and> tag \<noteq> NilBytes \<and> len tag = 0"
proof -
  from assms obtain vt where "range_registry P (payloadTypeRegistry w) ks vt = (tag, False)"
    by (auto simp: payloadTypeForRecord_def split: sum.splits)
  then have "tag = Bytes []" by (rule range_registry_not_found)
  then show ?thesis by (simp add: len_def)
qed

theorem not_found_tag_is_empty_witness:
  "payloadTypeForRecord demo_program
     \<lparr>payloadTypeRegistry = [[1, 2] \<mapsto> Defined ''Foo''], heap = []\<rparr> [[1, 2]]
     (Pointer (Defined ''Baz'') None) =
     Inr ((Bytes [], False), \<lparr>payloadTypeRegistry = [[1, 2] \<mapsto> Defined ''Foo''], heap = []\<rparr>) \<and>
   Bytes [] \<noteq> NilBytes \<and> len (Bytes []) = 0"
proof -
  have run: "payloadTypeForRecord demo_program
     \<lparr>payloadTypeRegistry = [[1, 2] \<mapsto> Defined ''Foo''], heap = []\<rparr> [[1, 2]]
     (Pointer (Defined ''Baz'') None) =
     Inr ((Bytes [], False), \<lparr>payloadTypeRegistry = [[1, 2] \<mapsto> Defined ''Foo''], heap = []\<rparr>)"
    by (simp add: payloadTypeForRecord_def getValueType_def kind_def elem_def AssignableTo_def)
  from not_found_tag_is_empty [OF run] run show ?thesis by simp
qed



end
